theory Spec2Isabelle
  imports Main "HOL-Library.Log_Nat" "HOL-Library.Word"
begin

unbundle bit_operations_syntax

section \<open>Python values\<close>

text \<open>
  The program builds and returns plain Python dictionaries whose values are strings,
  floats, booleans, integers, \<open>None\<close>, lists and nested dictionaries. A dictionary keeps
  the insertion order of its keys, so it is an association list with distinct keys.
  A finite binary64 float is the rational number it denotes.
\<close>

datatype pyval =
    PNone
  | PBool bool
  | PInt int
  | PFloat rat
  | PStr string
  | PList "pyval list"
  | PDict "(string \<times> pyval) list"

type_synonym pydict = "(string \<times> pyval) list"

datatype py_error = KeyError | TypeError

text \<open>\<open>d[k] = v\<close>: an existing key keeps its position and takes the new value, a new key
  goes to the end.\<close>

fun dict_set :: "('k \<times> 'v) list \<Rightarrow> 'k \<Rightarrow> 'v \<Rightarrow> ('k \<times> 'v) list" where
  "dict_set [] k v = [(k, v)]"
| "dict_set ((k', v') # d) k v = (if k' = k then (k, v) # d else (k', v') # dict_set d k v)"

text \<open>The display \<open>{'name': x, **config}\<close>: start from the one-entry dictionary and store
  the entries of \<open>config\<close> from left to right.\<close>

definition dict_merge :: "('k \<times> 'v) list \<Rightarrow> ('k \<times> 'v) list \<Rightarrow> ('k \<times> 'v) list" where
  "dict_merge d1 d2 = foldl (\<lambda>d (k, v). dict_set d k v) d1 d2"

definition dict_keys :: "('k \<times> 'v) list \<Rightarrow> 'k list" where
  "dict_keys d = map fst d"

definition dict_values :: "('k \<times> 'v) list \<Rightarrow> 'v list" where
  "dict_values d = map snd d"

section \<open>Binary64 arithmetic\<close>

text \<open>
  Python's \<open>float\<close> is IEEE 754 binary64. A decimal literal denotes the double nearest
  to it, and every arithmetic operation returns the double nearest to the exact result,
  ties going to the even significand. \<open>fl\<close> is that rounding, for the normal and
  subnormal range (no value of this program comes near the overflow threshold).
\<close>

definition pow2 :: "int \<Rightarrow> rat" where
  "pow2 e = (if 0 \<le> e then 2 ^ nat e else 1 / 2 ^ nat (- e))"

definition round_half_even :: "rat \<Rightarrow> int" where
  "round_half_even x =
     (let f = \<lfloor>x\<rfloor>; r = x - of_int f
      in if r < 1 / 2 then f else if 1 / 2 < r then f + 1 else if even f then f else f + 1)"

text \<open>\<open>ilog2 x\<close> is the exponent \<open>e\<close> with \<open>2 ^ e \<le> x < 2 ^ (e + 1)\<close>, for \<open>0 < x\<close>.\<close>

definition ilog2 :: "rat \<Rightarrow> int" where
  "ilog2 x = (case quotient_of x of (p, q) \<Rightarrow>
      let d = bitlen p - bitlen q in if pow2 d \<le> x then d else d - 1)"

definition fl :: "rat \<Rightarrow> rat" where
  "fl x = (if x = 0 then 0
           else let q = pow2 (max (ilog2 \<bar>x\<bar>) (- 1022) - 52)
                in of_int (round_half_even (x / q)) * q)"

definition fadd :: "rat \<Rightarrow> rat \<Rightarrow> rat" where
  "fadd a b = fl (a + b)"

definition fsub :: "rat \<Rightarrow> rat \<Rightarrow> rat" where
  "fsub a b = fl (a - b)"

definition fmul :: "rat \<Rightarrow> rat \<Rightarrow> rat" where
  "fmul a b = fl (a * b)"

definition fdiv :: "rat \<Rightarrow> rat \<Rightarrow> rat" where
  "fdiv a b = fl (a / b)"

text \<open>The builtin \<open>sum\<close> over floats: it starts from the integer 0 and adds from left to
  right.\<close>

definition py_sum :: "rat list \<Rightarrow> rat" where
  "py_sum xs = foldl fadd 0 xs"

section \<open>constants.py\<close>

definition TOTAL_PSP_PER_TRANSACTION :: rat where
  "TOTAL_PSP_PER_TRANSACTION = fl (7500 / 1000)"

definition GREEK_WALLETS :: "(string \<times> pydict) list" where
  "GREEK_WALLETS =
    [(''athena'',
        [(''name'', PStr ''Athena''),
         (''role'', PStr ''foundation''),
         (''display_role'', PStr ''PSP Foundation''),
         (''psp_amount'', PFloat (fl (2000 / 1000))),
         (''percentage'', PFloat (fl (2667 / 100))),
         (''description'', PStr ''Proof Of Service Protocol Foundation - Operational expenses''),
         (''destination_type'', PStr ''foundation''),
         (''immutable'', PBool False)]),
     (''hermes'',
        [(''name'', PStr ''Hermes''),
         (''role'', PStr ''platform''),
         (''display_role'', PStr ''Platform Operations''),
         (''psp_amount'', PFloat (fl (1225 / 1000))),
         (''percentage'', PFloat (fl (1633 / 100))),
         (''description'', PStr ''Platform operations and services''),
         (''destination_type'', PStr ''platform''),
         (''immutable'', PBool False)]),
     (''chronos'',
        [(''name'', PStr ''Chronos''),
         (''role'', PStr ''development''),
         (''display_role'', PStr ''Development Team''),
         (''psp_amount'', PFloat (fl (1125 / 1000))),
         (''percentage'', PFloat (fl (1500 / 100))),
         (''description'', PStr ''Development team rewards''),
         (''destination_type'', PStr ''developers''),
         (''immutable'', PBool False)]),
     (''prometheus'',
        [(''name'', PStr ''Prometheus''),
         (''role'', PStr ''worker''),
         (''display_role'', PStr ''Worker/Technician''),
         (''psp_amount'', PFloat (fl (1000 / 1000))),
         (''percentage'', PFloat (fl (1333 / 100))),
         (''description'', PStr ''Worker rewards for completed services''),
         (''destination_type'', PStr ''user''),
         (''immutable'', PBool False)]),
     (''apollo'',
        [(''name'', PStr ''Apollo''),
         (''role'', PStr ''client''),
         (''display_role'', PStr ''Client''),
         (''psp_amount'', PFloat (fl (1000 / 1000))),
         (''percentage'', PFloat (fl (1333 / 100))),
         (''description'', PStr ''Client rewards for confirmed services''),
         (''destination_type'', PStr ''user''),
         (''immutable'', PBool False)]),
     (''gaia'',
        [(''name'', PStr ''Gaia''),
         (''role'', PStr ''property''),
         (''display_role'', PStr ''Property NFT''),
         (''psp_amount'', PFloat (fl (1000 / 1000))),
         (''percentage'', PFloat (fl (1333 / 100))),
         (''description'', PStr ''Property NFT rewards - Portable Protocol''),
         (''destination_type'', PStr ''property_nft''),
         (''immutable'', PBool False),
         (''special_rule'', PStr ''PSP goes directly to PropertyNFT, not to user. Transfers with property ownership.'')]),
     (''zeus'',
        [(''name'', PStr ''Zeus''),
         (''role'', PStr ''dao''),
         (''display_role'', PStr ''DAO/Protocol''),
         (''psp_amount'', PFloat (fl (75 / 1000))),
         (''percentage'', PFloat (fl (100 / 100))),
         (''description'', PStr ''Protocol DAO governance reserve - Immutable 1%''),
         (''destination_type'', PStr ''dao''),
         (''immutable'', PBool True)]),
     (''olympus'',
        [(''name'', PStr ''Olympus''),
         (''role'', PStr ''legal''),
         (''display_role'', PStr ''Legal Operations''),
         (''psp_amount'', PFloat (fl (75 / 1000))),
         (''percentage'', PFloat (fl (100 / 100))),
         (''description'', PStr ''Community legal operations - Immutable 1%''),
         (''destination_type'', PStr ''legal''),
         (''immutable'', PBool True)])]"

definition WALLET_NAMES :: "string list" where
  "WALLET_NAMES = dict_keys GREEK_WALLETS"

text \<open>\<open>config[k]\<close> raises \<open>KeyError\<close> on a missing key; a float is read out of the value
  found.\<close>

definition getitem :: "pydict \<Rightarrow> string \<Rightarrow> py_error + pyval" where
  "getitem d k = (case map_of d k of None \<Rightarrow> Inl KeyError | Some v \<Rightarrow> Inr v)"

text \<open>The loop of \<open>get_wallet_by_role\<close> over \<open>GREEK_WALLETS.items()\<close>: the first entry
  whose role equals the argument is returned, merged under its key; \<open>None\<close> after the
  last entry.\<close>

fun wallet_by_role_loop :: "(string \<times> pydict) list \<Rightarrow> string \<Rightarrow> py_error + pydict option" where
  "wallet_by_role_loop [] role = Inr None"
| "wallet_by_role_loop ((name, config) # rest) role =
     (case getitem config ''role'' of
        Inl e \<Rightarrow> Inl e
      | Inr r \<Rightarrow>
          if r = PStr role then Inr (Some (dict_merge [(''name'', PStr name)] config))
          else wallet_by_role_loop rest role)"

definition get_wallet_by_role :: "string \<Rightarrow> py_error + pydict option" where
  "get_wallet_by_role role = wallet_by_role_loop GREEK_WALLETS role"

section \<open>distribution.py: lookups\<close>

definition get_wallet_info :: "string \<Rightarrow> pydict option" where
  "get_wallet_info wallet_name =
     (case map_of GREEK_WALLETS wallet_name of
        None \<Rightarrow> None
      | Some config \<Rightarrow> Some (dict_merge [(''name'', PStr wallet_name)] config))"

section \<open>Raising and propagating\<close>

text \<open>An exception raised by a subscript ends the enclosing call: \<open>bind_err\<close> runs the
  rest of the body on the value, or passes the exception on.\<close>

definition bind_err :: "'e + 'a \<Rightarrow> ('a \<Rightarrow> 'e + 'b) \<Rightarrow> 'e + 'b" where
  "bind_err m f = (case m of Inl e \<Rightarrow> Inl e | Inr x \<Rightarrow> f x)"

fun map_err :: "('a \<Rightarrow> 'e + 'b) \<Rightarrow> 'a list \<Rightarrow> 'e + 'b list" where
  "map_err f [] = Inr []"
| "map_err f (x # xs) = bind_err (f x) (\<lambda>y. bind_err (map_err f xs) (\<lambda>ys. Inr (y # ys)))"

text \<open>The generator \<open>d[k] for d in ds\<close> handed to \<open>sum\<close>. Every amount of this program is
  a float; adding anything else to the running float total is a \<open>TypeError\<close> here.\<close>

definition float_item :: "string \<Rightarrow> pydict \<Rightarrow> py_error + rat" where
  "float_item k d =
     bind_err (getitem d k) (\<lambda>v. case v of PFloat x \<Rightarrow> Inr x | _ \<Rightarrow> Inl TypeError)"

definition sum_items :: "string \<Rightarrow> pydict list \<Rightarrow> py_error + rat" where
  "sum_items k ds = bind_err (map_err (float_item k) ds) (\<lambda>xs. Inr (py_sum xs))"

text \<open>\<open>abs(total - TOTAL_PSP_PER_TRANSACTION) < 0.001\<close>\<close>

definition within_tolerance :: "rat \<Rightarrow> bool" where
  "within_tolerance t \<longleftrightarrow> \<bar>fsub t TOTAL_PSP_PER_TRANSACTION\<bar> < fl (1 / 1000)"

section \<open>constants.py: validation\<close>

definition validate_total :: "py_error + bool" where
  "validate_total =
     bind_err (sum_items ''psp_amount'' (dict_values GREEK_WALLETS))
       (\<lambda>total. Inr (within_tolerance total))"

section \<open>distribution.py: the two distributions\<close>

text \<open>The clock is read once per call; its reading \<open>now\<close>, already in ISO format, is an
  argument of the model.\<close>

definition classic_emission :: "string \<times> pydict \<Rightarrow> py_error + pydict" where
  "classic_emission item = (case item of (wallet_name, config) \<Rightarrow>
     bind_err (getitem config ''name'') (\<lambda>name.
     bind_err (getitem config ''role'') (\<lambda>role.
     bind_err (getitem config ''psp_amount'') (\<lambda>amount.
     bind_err (getitem config ''percentage'') (\<lambda>percentage.
     bind_err (getitem config ''destination_type'') (\<lambda>destination_type.
       Inr [(''wallet'', PStr wallet_name),
            (''name'', name),
            (''role'', role),
            (''amount_psp'', amount),
            (''percentage'', percentage),
            (''destination_type'', destination_type)]))))))"

definition distribute_classic_7_5 :: "string \<Rightarrow> py_error + pydict" where
  "distribute_classic_7_5 now =
     bind_err (map_err classic_emission GREEK_WALLETS) (\<lambda>emissions.
     bind_err (sum_items ''amount_psp'' emissions) (\<lambda>total.
       Inr [(''emissions'', PList (map PDict emissions)),
            (''total_psp'', PFloat total),
            (''verified'', PBool (within_tolerance total)),
            (''timestamp'', PStr now)]))"

text \<open>An \<open>Optional[int]\<close> argument as a Python value.\<close>

definition opt_int :: "int option \<Rightarrow> pyval" where
  "opt_int x = (case x of None \<Rightarrow> PNone | Some i \<Rightarrow> PInt i)"

definition service_emissions :: "int \<Rightarrow> int \<Rightarrow> int option \<Rightarrow> pydict list" where
  "service_emissions worker_id client_id property_id =
     [[(''wallet'', PStr ''athena''),
       (''amount_psp'', PFloat (fl (2000 / 1000))),
       (''destination_type'', PStr ''foundation''),
       (''destination_id'', PNone),
       (''role'', PStr ''PSP Foundation'')],
      [(''wallet'', PStr ''hermes''),
       (''amount_psp'', PFloat (fl (1225 / 1000))),
       (''destination_type'', PStr ''platform''),
       (''destination_id'', PNone),
       (''role'', PStr ''Platform'')],
      [(''wallet'', PStr ''chronos''),
       (''amount_psp'', PFloat (fl (1125 / 1000))),
       (''destination_type'', PStr ''developers''),
       (''destination_id'', PNone),
       (''role'', PStr ''Developers'')],
      [(''wallet'', PStr ''prometheus''),
       (''amount_psp'', PFloat (fl (1000 / 1000))),
       (''destination_type'', PStr ''user''),
       (''destination_id'', PInt worker_id),
       (''role'', PStr ''Worker'')],
      [(''wallet'', PStr ''apollo''),
       (''amount_psp'', PFloat (fl (1000 / 1000))),
       (''destination_type'', PStr ''user''),
       (''destination_id'', PInt client_id),
       (''role'', PStr ''Client'')],
      [(''wallet'', PStr ''gaia''),
       (''amount_psp'', PFloat (fl (1000 / 1000))),
       (''destination_type'', PStr ''property_nft''),
       (''destination_id'', opt_int property_id),
       (''role'', PStr ''Property NFT'')],
      [(''wallet'', PStr ''zeus''),
       (''amount_psp'', PFloat (fl (75 / 1000))),
       (''destination_type'', PStr ''dao''),
       (''destination_id'', PNone),
       (''role'', PStr ''DAO/Protocol'')],
      [(''wallet'', PStr ''olympus''),
       (''amount_psp'', PFloat (fl (75 / 1000))),
       (''destination_type'', PStr ''legal''),
       (''destination_id'', PNone),
       (''role'', PStr ''Legal'')]]"

text \<open>The defaults of the optional parameters: \<open>property_id = None\<close>,
  \<open>certificate_id = None\<close>, \<open>service_value_usd = 0.0\<close>, \<open>dapp_origen = 'generic'\<close>. A call
  that omits \<open>property_id\<close> is the call with \<open>None\<close> in its place.\<close>

definition distribute_for_service ::
  "int \<Rightarrow> int \<Rightarrow> int option \<Rightarrow> int option \<Rightarrow> rat \<Rightarrow> string \<Rightarrow> string \<Rightarrow> py_error + pydict" where
  "distribute_for_service worker_id client_id property_id certificate_id service_value_usd
       dapp_origen now =
     (let timestamp = now;
          emissions = service_emissions worker_id client_id property_id
      in bind_err (sum_items ''amount_psp'' emissions) (\<lambda>total.
           Inr [(''certificate_id'', opt_int certificate_id),
                (''timestamp'', PStr timestamp),
                (''total_psp'', PFloat total),
                (''service_value_usd'', PFloat service_value_usd),
                (''dapp_origen'', PStr dapp_origen),
                (''emissions'', PList (map PDict emissions)),
                (''verified'', PBool (within_tolerance total)),
                (''eternal_rules_applied'',
                   PDict [(''zeus_1_percent'', PBool True),
                          (''olympus_1_percent'', PBool True),
                          (''satoshi_principle'', PBool True)])]))"

section \<open>Reading a result\<close>

text \<open>The emissions of a result, and the emission of one wallet key among them.\<close>

fun dicts_of :: "pyval list \<Rightarrow> pydict list" where
  "dicts_of [] = []"
| "dicts_of (PDict m # es) = m # dicts_of es"
| "dicts_of (_ # es) = dicts_of es"

definition emissions_of :: "py_error + pydict \<Rightarrow> pydict list" where
  "emissions_of res =
     (case res of
        Inr d \<Rightarrow> (case map_of d ''emissions'' of Some (PList es) \<Rightarrow> dicts_of es | _ \<Rightarrow> [])
      | Inl _ \<Rightarrow> [])"

definition emission_for :: "py_error + pydict \<Rightarrow> string \<Rightarrow> pydict option" where
  "emission_for res wallet =
     find (\<lambda>e. map_of e ''wallet'' = Some (PStr wallet)) (emissions_of res)"

definition field_of :: "py_error + pydict \<Rightarrow> string \<Rightarrow> pyval option" where
  "field_of res k = (case res of Inr d \<Rightarrow> map_of d k | Inl _ \<Rightarrow> None)"

text \<open>One field of the emission of one wallet key: \<open>None\<close> when the emission or the field
  is missing, \<open>Some PNone\<close> when the field is there and holds Python's \<open>None\<close>.\<close>

definition emission_field :: "py_error + pydict \<Rightarrow> string \<Rightarrow> string \<Rightarrow> pyval option" where
  "emission_field res wallet k = Option.bind (emission_for res wallet) (\<lambda>e. map_of e k)"

definition emission_wallets :: "py_error + pydict \<Rightarrow> pyval option list" where
  "emission_wallets res = map (\<lambda>e. map_of e ''wallet'') (emissions_of res)"

section \<open>Strings of numbers\<close>

text \<open>\<open>str\<close> of an integer, as an f-string field \<open>{n}\<close> gives it.\<close>

definition digit_char :: "nat \<Rightarrow> char" where
  "digit_char n = char_of (48 + n)"

function nat_str :: "nat \<Rightarrow> string" where
  "nat_str n = (if n < 10 then [digit_char n] else nat_str (n div 10) @ [digit_char (n mod 10)])"
  by pat_completeness auto
termination
  by (relation "measure id") auto

definition int_str :: "int \<Rightarrow> string" where
  "int_str i = (if i < 0 then ''-'' @ nat_str (nat (- i)) else nat_str (nat i))"

text \<open>
  \<open>str\<close> of a float, as an f-string field \<open>{x}\<close> gives it: the shortest decimal digit
  string that reads back as the same double (the nearest such when several have that
  length), written with a decimal point when the point falls within 16 digits and not
  more than 4 places before the first digit, and in exponent form otherwise.
\<close>

definition pow10 :: "int \<Rightarrow> rat" where
  "pow10 e = (if 0 \<le> e then 10 ^ nat e else 1 / 10 ^ nat (- e))"

text \<open>\<open>ilog10 x\<close> is the exponent \<open>e\<close> with \<open>10 ^ e \<le> x < 10 ^ (e + 1)\<close>, for \<open>0 < x\<close>.\<close>

definition ilog10 :: "rat \<Rightarrow> int" where
  "ilog10 x = (case quotient_of x of (p, q) \<Rightarrow>
      let d = int (length (nat_str (nat p))) - int (length (nat_str (nat q)))
      in if pow10 d \<le> x then d else d - 1)"

text \<open>The decimals with \<open>n\<close> significant digits next to \<open>x\<close> that read back as \<open>x\<close>, each
  as digits and exponent, the nearer one first.\<close>

definition candidates :: "rat \<Rightarrow> nat \<Rightarrow> (int \<times> int) list" where
  "candidates x n =
     (let k = ilog10 x - int n + 1;
          lo = \<lfloor>x / pow10 k\<rfloor>;
          near = (if x / pow10 k - of_int lo \<le> 1 / 2 then [lo, lo + 1] else [lo + 1, lo])
      in map (\<lambda>m. (m, k)) (filter (\<lambda>m. fl (of_int m * pow10 k) = x) near))"

fun first_candidate :: "rat \<Rightarrow> nat list \<Rightarrow> int \<times> int" where
  "first_candidate x [] = (0, 0)"
| "first_candidate x (n # ns) =
     (case candidates x n of [] \<Rightarrow> first_candidate x ns | c # _ \<Rightarrow> c)"

definition shortest_decimal :: "rat \<Rightarrow> int \<times> int" where
  "shortest_decimal x = first_candidate x [1..<18]"

function strip_zeros :: "int \<times> int \<Rightarrow> int \<times> int" where
  "strip_zeros (m, k) =
     (if m \<noteq> 0 \<and> m mod 10 = 0 then strip_zeros (m div 10, k + 1) else (m, k))"
  by pat_completeness auto
termination
  by (relation "measure (\<lambda>(m, k). nat \<bar>m\<bar>)") auto

definition float_str_pos :: "rat \<Rightarrow> string" where
  "float_str_pos x =
     (case strip_zeros (shortest_decimal x) of (m, k) \<Rightarrow>
        let digits = nat_str (nat m);
            n = int (length digits);
            decpt = n + k
        in if - 4 < decpt \<and> decpt \<le> 16 then
             (if decpt \<le> 0 then ''0.'' @ replicate (nat (- decpt)) (CHR ''0'') @ digits
              else if n \<le> decpt then digits @ replicate (nat (decpt - n)) (CHR ''0'') @ ''.0''
              else take (nat decpt) digits @ ''.'' @ drop (nat decpt) digits)
           else
             take 1 digits @ (if 1 < n then ''.'' @ drop 1 digits else [])
               @ ''e'' @ (if decpt - 1 < 0 then ''-'' else ''+'')
               @ (if \<bar>decpt - 1\<bar> < 10 then ''0'' else []) @ nat_str (nat \<bar>decpt - 1\<bar>))"

definition float_str :: "rat \<Rightarrow> string" where
  "float_str x =
     (if x = 0 then ''0.0'' else if x < 0 then ''-'' @ float_str_pos (- x) else float_str_pos x)"

text \<open>\<open>sep.join(xs)\<close>\<close>

fun py_join :: "string \<Rightarrow> string list \<Rightarrow> string" where
  "py_join sep [] = []"
| "py_join sep [x] = x"
| "py_join sep (x # y # ys) = x @ sep @ py_join sep (y # ys)"

section \<open>hashlib.sha256\<close>

text \<open>
  \<open>hashlib.sha256(data).hexdigest()\<close> is SHA-256 of FIPS 180-4 over the bytes of
  \<open>data\<close>, written as 64 lower-case hexadecimal digits. A string of this model is the
  sequence of its UTF-8 bytes, so \<open>encode('utf-8')\<close> reads each character as its byte.
\<close>

type_synonym u32 = "32 word"

definition encode_utf8 :: "string \<Rightarrow> 8 word list" where
  "encode_utf8 s = map of_char s"

definition rotr :: "nat \<Rightarrow> u32 \<Rightarrow> u32" where
  "rotr n x = drop_bit n x OR push_bit (32 - n) x"

definition Ch :: "u32 \<Rightarrow> u32 \<Rightarrow> u32 \<Rightarrow> u32" where
  "Ch x y z = (x AND y) XOR (NOT x AND z)"

definition Maj :: "u32 \<Rightarrow> u32 \<Rightarrow> u32 \<Rightarrow> u32" where
  "Maj x y z = (x AND y) XOR (x AND z) XOR (y AND z)"

definition Sigma0 :: "u32 \<Rightarrow> u32" where
  "Sigma0 x = rotr 2 x XOR rotr 13 x XOR rotr 22 x"

definition Sigma1 :: "u32 \<Rightarrow> u32" where
  "Sigma1 x = rotr 6 x XOR rotr 11 x XOR rotr 25 x"

definition sigma0 :: "u32 \<Rightarrow> u32" where
  "sigma0 x = rotr 7 x XOR rotr 18 x XOR drop_bit 3 x"

definition sigma1 :: "u32 \<Rightarrow> u32" where
  "sigma1 x = rotr 17 x XOR rotr 19 x XOR drop_bit 10 x"

text \<open>The constants of the standard are the first 32 bits of the fractional parts of
  roots of the first primes: cube roots of the first 64 for the round constants, square
  roots of the first 8 for the initial hash value. \<open>iroot r n\<close> is the integer part of
  the \<open>r\<close>-th root of \<open>n\<close>, found bit by bit from above.\<close>

function sieve :: "int list \<Rightarrow> int list" where
  "sieve [] = []"
| "sieve (p # xs) = p # sieve (filter (\<lambda>x. x mod p \<noteq> 0) xs)"
  by pat_completeness auto
termination
  by (relation "measure length") (auto simp: less_Suc_eq_le)

definition primes :: "int list" where
  "primes = sieve [2..311]"

definition root_step :: "nat \<Rightarrow> int \<Rightarrow> int \<Rightarrow> nat \<Rightarrow> int" where
  "root_step r n acc b = (if (acc + 2 ^ b) ^ r \<le> n then acc + 2 ^ b else acc)"

definition iroot :: "nat \<Rightarrow> int \<Rightarrow> int" where
  "iroot r n = foldl (root_step r n) 0 (rev [0..<36])"

definition frac_root_bits :: "nat \<Rightarrow> int \<Rightarrow> u32" where
  "frac_root_bits r p = of_int (iroot r (p * 2 ^ (32 * r)))"

definition K256 :: "u32 list" where
  "K256 = map (frac_root_bits 3) (take 64 primes)"

definition H256 :: "u32 list" where
  "H256 = map (frac_root_bits 2) (take 8 primes)"

text \<open>The message schedule: each of the 48 further words comes from the 16 before it.\<close>

definition next_word :: "u32 list \<Rightarrow> u32" where
  "next_word w = sigma1 (w ! 14) + w ! 9 + sigma0 (w ! 1) + w ! 0"

definition extend :: "u32 list \<Rightarrow> nat \<Rightarrow> u32 list" where
  "extend W t = W @ [next_word (drop (t - 16) W)]"

definition schedule :: "u32 list \<Rightarrow> u32 list" where
  "schedule block = foldl extend block [16..<64]"

fun round_step :: "u32 list \<Rightarrow> u32 \<times> u32 \<Rightarrow> u32 list" where
  "round_step [a, b, c, d, e, f, g, h] (k, w) =
     (let t1 = h + Sigma1 e + Ch e f g + k + w;
          t2 = Sigma0 a + Maj a b c
      in [t1 + t2, a, b, c, d + t1, e, f, g])"
| "round_step s _ = s"

definition compress :: "u32 list \<Rightarrow> u32 list \<Rightarrow> u32 list" where
  "compress hs block = map2 (+) hs (foldl round_step hs (zip K256 (schedule block)))"

text \<open>Padding: the byte \<open>0x80\<close>, zero bytes up to 56 modulo 64, then the length in bits
  as eight bytes, most significant first. Words are read most significant byte first.\<close>

definition pad :: "8 word list \<Rightarrow> 8 word list" where
  "pad m =
     (let l = length m
      in m @ [0x80] @ replicate ((119 - l mod 64) mod 64) 0
           @ map (\<lambda>i. ucast (drop_bit (8 * (7 - i)) (of_nat (8 * l) :: 64 word))) [0..<8])"

fun be_words :: "8 word list \<Rightarrow> u32 list" where
  "be_words (a # b # c # d # rest) =
     (push_bit 24 (ucast a) OR push_bit 16 (ucast b) OR push_bit 8 (ucast c) OR ucast d)
       # be_words rest"
| "be_words _ = []"

fun blocks :: "u32 list \<Rightarrow> u32 list list" where
  "blocks (w0 # w1 # w2 # w3 # w4 # w5 # w6 # w7 # w8 # w9 # w10 # w11 # w12 # w13 # w14
      # w15 # rest) =
     [w0, w1, w2, w3, w4, w5, w6, w7, w8, w9, w10, w11, w12, w13, w14, w15] # blocks rest"
| "blocks _ = []"

definition sha256 :: "8 word list \<Rightarrow> u32 list" where
  "sha256 m = foldl compress H256 (blocks (be_words (pad m)))"

definition hex_digit :: "nat \<Rightarrow> char" where
  "hex_digit n = ''0123456789abcdef'' ! n"

definition hex_word :: "u32 \<Rightarrow> string" where
  "hex_word w = map (\<lambda>i. hex_digit (unat (drop_bit (4 * (7 - i)) w AND 15))) [0..<8]"

definition hexdigest :: "u32 list \<Rightarrow> string" where
  "hexdigest hs = concat (map hex_word hs)"


section \<open>genesis.py\<close>

record immutable_rules_t =
  zeus_percentage :: rat
  olympus_percentage :: rat
  total_psp_fixed :: rat

record genesis_block =
  block_number :: int
  version :: string
  timestamp :: string
  previous_hash :: string
  protocol :: string
  total_psp_per_transaction :: rat
  message :: string
  principles :: "string list"
  satoshi_legacy :: string
  wallets :: "string list"
  immutable_rules :: immutable_rules_t

definition GENESIS_BLOCK :: genesis_block where
  "GENESIS_BLOCK =
     \<lparr> block_number = 0,
       version = ''1.0.0'',
       timestamp = ''2025-12-01T00:00:00Z'',
       previous_hash = replicate 64 (CHR ''0''),
       protocol = ''Proof Of Service Protocol'',
       total_psp_per_transaction = fl (7500 / 1000),
       message = ''SmartWork Always Leads To Greatness'',
       principles =
         [''Radical Trust'', ''Total Transparency'', ''Real Utility'',
          ''Shared Responsibility'', ''Progressive Inclusion'',
          ''Respect for Time and Effort''],
       satoshi_legacy = ''Without verified physical work, there is no emission.'',
       wallets =
         [''athena'', ''hermes'', ''chronos'', ''prometheus'', ''apollo'', ''gaia'', ''zeus'',
          ''olympus''],
       immutable_rules =
         \<lparr> zeus_percentage = fl (100 / 100),
           olympus_percentage = fl (100 / 100),
           total_psp_fixed = fl (7500 / 1000) \<rparr> \<rparr>"

text \<open>The f-string of \<open>_compute_genesis_hash\<close>: ten adjacent pieces, each but the last
  ending with the pipe.\<close>

definition genesis_string :: string where
  "genesis_string =
     ''block:'' @ int_str (block_number GENESIS_BLOCK) @ ''|''
     @ ''version:'' @ version GENESIS_BLOCK @ ''|''
     @ ''timestamp:'' @ timestamp GENESIS_BLOCK @ ''|''
     @ ''protocol:'' @ protocol GENESIS_BLOCK @ ''|''
     @ ''psp:'' @ float_str (total_psp_per_transaction GENESIS_BLOCK) @ ''|''
     @ ''message:'' @ message GENESIS_BLOCK @ ''|''
     @ ''satoshi:'' @ satoshi_legacy GENESIS_BLOCK @ ''|''
     @ ''wallets:'' @ py_join '','' (wallets GENESIS_BLOCK) @ ''|''
     @ ''zeus:'' @ float_str (zeus_percentage (immutable_rules GENESIS_BLOCK)) @ ''|''
     @ ''olympus:'' @ float_str (olympus_percentage (immutable_rules GENESIS_BLOCK))"

definition compute_genesis_hash :: string where
  "compute_genesis_hash = hexdigest (sha256 (encode_utf8 genesis_string))"

definition GENESIS_HASH :: string where
  "GENESIS_HASH = compute_genesis_hash"

text \<open>\<open>if provided_hash:\<close> holds for a string that is given and not empty.\<close>

definition truthy :: "string option \<Rightarrow> bool" where
  "truthy provided_hash = (case provided_hash of None \<Rightarrow> False | Some s \<Rightarrow> s \<noteq> [])"

definition verify_genesis :: "string option \<Rightarrow> py_error + pydict" where
  "verify_genesis provided_hash =
     (let computed = compute_genesis_hash;
          result =
            [(''genesis_hash'', PStr computed),
             (''block_number'', PInt 0),
             (''timestamp'', PStr (timestamp GENESIS_BLOCK)),
             (''protocol_version'', PStr (version GENESIS_BLOCK)),
             (''total_psp'', PFloat (total_psp_per_transaction GENESIS_BLOCK)),
             (''wallet_count'', PInt (int (length (wallets GENESIS_BLOCK)))),
             (''verified'', PBool True)]
      in case provided_hash of
           None \<Rightarrow> Inr result
         | Some p \<Rightarrow>
             if truthy provided_hash then
               (let result1 = dict_set result ''provided_hash'' (PStr p);
                    result2 = dict_set result1 ''matches'' (PBool (computed = p))
                in bind_err (getitem result2 ''matches'')
                     (\<lambda>matches. Inr (dict_set result2 ''verified'' matches)))
             else Inr result)"

text \<open>The ten fields that the specification lists, in its order, each with the label
  it is written under, and the string they make: every field as \<open>label:value\<close>, the
  fields joined by the pipe.\<close>

definition spec_genesis_fields :: "(string \<times> string) list" where
  "spec_genesis_fields =
     [(''block'', int_str (block_number GENESIS_BLOCK)),
      (''version'', version GENESIS_BLOCK),
      (''timestamp'', timestamp GENESIS_BLOCK),
      (''protocol'', protocol GENESIS_BLOCK),
      (''psp'', float_str (total_psp_per_transaction GENESIS_BLOCK)),
      (''message'', message GENESIS_BLOCK),
      (''satoshi'', satoshi_legacy GENESIS_BLOCK),
      (''wallets'', py_join '','' (wallets GENESIS_BLOCK)),
      (''zeus'', float_str (zeus_percentage (immutable_rules GENESIS_BLOCK))),
      (''olympus'', float_str (olympus_percentage (immutable_rules GENESIS_BLOCK)))]"

definition spec_genesis_string :: string where
  "spec_genesis_string = py_join ''|'' (map (\<lambda>(l, v). l @ '':'' @ v) spec_genesis_fields)"

text \<open>The call \<open>distribute_for_service(worker_id=42, client_id=7, property_id=9,
  certificate_id=100, service_value_usd=250.0, dapp_origen="handyplan")\<close>.\<close>

definition example_service_call :: "string \<Rightarrow> py_error + pydict" where
  "example_service_call now =
     distribute_for_service 42 7 (Some 9) (Some 100) (fl 250) ''handyplan'' now"

text \<open>Key, amount and percentage of every entry of the table, in table order.\<close>

definition wallet_shares :: "(string \<times> rat \<times> rat) list" where
  "wallet_shares =
     concat (map (\<lambda>(k, c). case (map_of c ''psp_amount'', map_of c ''percentage'') of
                              (Some (PFloat a), Some (PFloat p)) \<Rightarrow> [(k, a, p)]
                            | _ \<Rightarrow> []) GREEK_WALLETS)"

text \<open>The roles of the table, in table order.\<close>

definition wallet_roles :: "pyval list" where
  "wallet_roles = map (\<lambda>(name, config). case map_of config ''role'' of Some r \<Rightarrow> r | None \<Rightarrow> PNone) GREEK_WALLETS"

section \<open>Facts about the wallet table\<close>

lemma find_Some_mem: "find P xs = Some x \<Longrightarrow> x \<in> set xs \<and> P x"
  by (induction xs) (auto split: if_splits)

lemma WALLET_NAMES_eq:
  "WALLET_NAMES = [''athena'', ''hermes'', ''chronos'', ''prometheus'', ''apollo'', ''gaia'',
     ''zeus'', ''olympus'']"
  by (simp add: WALLET_NAMES_def dict_keys_def GREEK_WALLETS_def)

lemma wallet_roles_eq:
  "wallet_roles = map PStr [''foundation'', ''platform'', ''development'', ''worker'',
     ''client'', ''property'', ''dao'', ''legal'']"
  by (simp add: wallet_roles_def GREEK_WALLETS_def)

text \<open>Every entry of the table starts with its own \<open>name\<close>, so merging an entry under
  \<open>{'name': key}\<close> gives the entry back.\<close>

lemma get_wallet_info_eq: "get_wallet_info k = map_of GREEK_WALLETS k"
  by (simp add: get_wallet_info_def GREEK_WALLETS_def dict_merge_def)

lemma get_wallet_by_role_eq:
  "get_wallet_by_role r =
     Inr (map_option snd
       (find (\<lambda>(name, config). map_of config ''role'' = Some (PStr r)) GREEK_WALLETS))"
  by (simp add: get_wallet_by_role_def GREEK_WALLETS_def getitem_def dict_merge_def)

lemma key_not_in_entry:
  "(k, config) \<in> set GREEK_WALLETS \<Longrightarrow>
     PStr k \<notin> set (dict_values config) \<and> map_of config ''name'' \<noteq> Some (PStr k)"
  by (auto simp add: GREEK_WALLETS_def dict_values_def)

section \<open>Lookups\<close>

text \<open>
  C7. A lookup by a key that is not a wallet key, and a lookup by a role that no entry
  has, both return \<open>None\<close>, the not-found signal: no record, partial or default, comes
  back. (Both directions hold: \<open>None\<close> is returned for unknown keys and roles only.)
\<close>

theorem unknown_lookup_returns_none:
  "(k \<notin> set WALLET_NAMES \<longrightarrow> get_wallet_info k = None)
   \<and> (PStr r \<notin> set wallet_roles \<longrightarrow> get_wallet_by_role r = Inr None)
   \<and> (get_wallet_info k = None \<longrightarrow> k \<notin> set WALLET_NAMES)
   \<and> (get_wallet_by_role r = Inr None \<longrightarrow> PStr r \<notin> set wallet_roles)"
proof -
  have a: "get_wallet_info k = None \<longleftrightarrow> k \<notin> set WALLET_NAMES"
    by (simp add: get_wallet_info_eq map_of_eq_None_iff WALLET_NAMES_def dict_keys_def)
  have b: "get_wallet_by_role r = Inr None \<longleftrightarrow> PStr r \<notin> set wallet_roles"
    unfolding wallet_roles_eq
    by (auto simp add: get_wallet_by_role_def GREEK_WALLETS_def getitem_def)
  from a b show ?thesis by blast
qed

theorem unknown_lookup_returns_none_witness:
  "''hades'' \<notin> set WALLET_NAMES \<and> get_wallet_info ''hades'' = None
   \<and> PStr ''nobody'' \<notin> set wallet_roles \<and> get_wallet_by_role ''nobody'' = Inr None"
  using unknown_lookup_returns_none [of "''hades''" "''nobody''"]
  by (simp add: WALLET_NAMES_eq wallet_roles_eq)

text \<open>
  C9. A successful lookup, by key or by role, returns the table entry itself: the entry's
  own \<open>name\<close> (the display name, \<open>Athena\<close> for the key \<open>athena\<close>) replaces the
  key stored first by the merge, so the \<open>name\<close> field is not the key, and the key is
  not among the values of the returned record at all.
\<close>

theorem lookup_name_is_display_name:
  "(get_wallet_info k = Some rec \<longrightarrow>
      map_of GREEK_WALLETS k = Some rec
      \<and> map_of rec ''name'' \<noteq> Some (PStr k)
      \<and> PStr k \<notin> set (dict_values rec))
   \<and> (get_wallet_by_role r = Inr (Some rec') \<longrightarrow>
      (\<exists>k'. (k', rec') \<in> set GREEK_WALLETS
         \<and> map_of rec' ''role'' = Some (PStr r)
         \<and> map_of rec' ''name'' \<noteq> Some (PStr k')
         \<and> PStr k' \<notin> set (dict_values rec')))"
proof (intro conjI impI)
  assume h: "get_wallet_info k = Some rec"
  then show m: "map_of GREEK_WALLETS k = Some rec"
    by (simp add: get_wallet_info_eq)
  then have "(k, rec) \<in> set GREEK_WALLETS"
    by (rule map_of_SomeD)
  then show "map_of rec ''name'' \<noteq> Some (PStr k)" and "PStr k \<notin> set (dict_values rec)"
    using key_not_in_entry by blast+
next
  assume h: "get_wallet_by_role r = Inr (Some rec')"
  then obtain k' where
    f: "find (\<lambda>(name, config). map_of config ''role'' = Some (PStr r)) GREEK_WALLETS
          = Some (k', rec')"
    by (auto simp add: get_wallet_by_role_eq)
  then have mem: "(k', rec') \<in> set GREEK_WALLETS" and role: "map_of rec' ''role'' = Some (PStr r)"
    by (auto dest: find_Some_mem)
  from mem key_not_in_entry [OF mem] role
  show "\<exists>k'. (k', rec') \<in> set GREEK_WALLETS
         \<and> map_of rec' ''role'' = Some (PStr r)
         \<and> map_of rec' ''name'' \<noteq> Some (PStr k')
         \<and> PStr k' \<notin> set (dict_values rec')"
    by blast
qed

theorem lookup_name_is_display_name_witness:
  "get_wallet_info ''athena'' = Some (the (get_wallet_info ''athena''))
   \<and> get_wallet_by_role ''foundation'' = Inr (Some (the (get_wallet_info ''athena'')))
   \<and> map_of (the (get_wallet_info ''athena'')) ''name'' = Some (PStr ''Athena'')
   \<and> PStr ''athena'' \<notin> set (dict_values (the (get_wallet_info ''athena'')))"
  using lookup_name_is_display_name
    [of "''athena''" "the (get_wallet_info ''athena'')" "''foundation''"
        "the (get_wallet_info ''athena'')"]
  by (simp add: get_wallet_info_def get_wallet_by_role_def GREEK_WALLETS_def getitem_def
      dict_merge_def dict_values_def)

section \<open>The amounts in binary64\<close>

lemma fl_vals:
  "fl 2 = 2" "fl 1 = 1" "fl (49 / 40) = 2758454771764429 / 2251799813685248"
  "fl (9 / 8) = 9 / 8" "fl (3 / 40) = 5404319552844595 / 72057594037927936"
  "fl (15 / 2) = 15 / 2" "fl 250 = 250"
  "fl (1 / 1000) = 1152921504606847 / 1152921504606846976"
  "fl (2667 / 100) = 1876734407218299 / 70368744177664"
  "fl (1633 / 100) = 1149121592421253 / 70368744177664"
  "fl 15 = 15" "fl (1333 / 100) = 7504122879106089 / 562949953421312"
  by code_simp+

lemma py_sum_amounts:
  "py_sum [fl 2, fl (49 / 40), fl (9 / 8), fl 1, fl 1, fl 1, fl (3 / 40), fl (3 / 40)] = 15 / 2"
  by code_simp

lemma within_tolerance_total: "within_tolerance (15 / 2)"
  by code_simp

lemma round_half_even_vals:
  "round_half_even (8000 / 3) = 2667"
  "round_half_even (344806846470553625 / 211106232532992) = 1633"
  "round_half_even 1500 = 1500"
  "round_half_even (4000 / 3) = 1333"
  "round_half_even (675539944105574375 / 6755399441055744) = 100"
  by code_simp+

lemma wallet_shares_eq:
  "wallet_shares =
     [(''athena'', 2, 1876734407218299 / 70368744177664),
      (''hermes'', 2758454771764429 / 2251799813685248, 1149121592421253 / 70368744177664),
      (''chronos'', 9 / 8, 15),
      (''prometheus'', 1, 7504122879106089 / 562949953421312),
      (''apollo'', 1, 7504122879106089 / 562949953421312),
      (''gaia'', 1, 7504122879106089 / 562949953421312),
      (''zeus'', 5404319552844595 / 72057594037927936, 1),
      (''olympus'', 5404319552844595 / 72057594037927936, 1)]"
  by (simp add: wallet_shares_def GREEK_WALLETS_def fl_vals)

lemma table_sum:
  "sum_items ''psp_amount'' (dict_values GREEK_WALLETS) = Inr (15 / 2)"
  by (simp add: GREEK_WALLETS_def dict_values_def sum_items_def float_item_def getitem_def
      bind_err_def py_sum_amounts)

section \<open>The results of the two distributions\<close>

lemma service_sum: "sum_items ''amount_psp'' (service_emissions w c p) = Inr (15 / 2)"
  by (simp add: sum_items_def service_emissions_def float_item_def getitem_def bind_err_def
      py_sum_amounts)

lemma distribute_for_service_eq:
  "distribute_for_service w c p cert v origin now =
     Inr [(''certificate_id'', opt_int cert),
          (''timestamp'', PStr now),
          (''total_psp'', PFloat (15 / 2)),
          (''service_value_usd'', PFloat v),
          (''dapp_origen'', PStr origin),
          (''emissions'', PList (map PDict (service_emissions w c p))),
          (''verified'', PBool True),
          (''eternal_rules_applied'',
             PDict [(''zeus_1_percent'', PBool True),
                    (''olympus_1_percent'', PBool True),
                    (''satoshi_principle'', PBool True)])]"
  by (simp add: distribute_for_service_def service_sum bind_err_def within_tolerance_total)

lemma dicts_of_map: "dicts_of (map PDict es) = es"
  by (induction es) auto

lemma dicts_of_map_comp: "dicts_of (map (PDict \<circ> f) xs) = map f xs"
  by (induction xs) auto

lemma service_emissions_of:
  "emissions_of (distribute_for_service w c p cert v origin now) = service_emissions w c p"
  by (simp add: distribute_for_service_eq emissions_of_def dicts_of_map)

lemma classic_emission_list:
  "map_err classic_emission GREEK_WALLETS =
     Inr (map (\<lambda>(w, c).
       [(''wallet'', PStr w), (''name'', the (map_of c ''name'')),
        (''role'', the (map_of c ''role'')), (''amount_psp'', the (map_of c ''psp_amount'')),
        (''percentage'', the (map_of c ''percentage'')),
        (''destination_type'', the (map_of c ''destination_type''))]) GREEK_WALLETS)"
  by (simp add: GREEK_WALLETS_def classic_emission_def getitem_def bind_err_def)

lemma classic_sum:
  "sum_items ''amount_psp'' (map (\<lambda>(w, c).
       [(''wallet'', PStr w), (''name'', the (map_of c ''name'')),
        (''role'', the (map_of c ''role'')), (''amount_psp'', the (map_of c ''psp_amount'')),
        (''percentage'', the (map_of c ''percentage'')),
        (''destination_type'', the (map_of c ''destination_type''))]) GREEK_WALLETS)
     = Inr (15 / 2)"
  by (simp add: GREEK_WALLETS_def sum_items_def float_item_def getitem_def bind_err_def
      py_sum_amounts)

lemma classic_emissions_of:
  "emissions_of (distribute_classic_7_5 now) =
     map (\<lambda>(w, c).
       [(''wallet'', PStr w), (''name'', the (map_of c ''name'')),
        (''role'', the (map_of c ''role'')), (''amount_psp'', the (map_of c ''psp_amount'')),
        (''percentage'', the (map_of c ''percentage'')),
        (''destination_type'', the (map_of c ''destination_type''))]) GREEK_WALLETS"
  by (simp add: distribute_classic_7_5_def classic_emission_list classic_sum bind_err_def
      emissions_of_def dicts_of_map dicts_of_map_comp)

lemma classic_total:
  "field_of (distribute_classic_7_5 now) ''total_psp'' = Some (PFloat (15 / 2))
   \<and> field_of (distribute_classic_7_5 now) ''verified'' = Some (PBool True)"
  by (simp add: distribute_classic_7_5_def classic_emission_list classic_sum bind_err_def
      field_of_def within_tolerance_total)

section \<open>The per-service distribution\<close>

text \<open>
  C1. The call with worker 42, client 7, property 9, certificate 100, service value 250.0
  and origin \<open>handyplan\<close> returns eight emissions, one per wallet key: prometheus 1.000
  to 42, apollo 1.000 to 7, gaia 1.000 to 9, and athena 2.000, hermes 1.225, chronos 1.125,
  zeus 0.075 and olympus 0.075 with destination id \<open>None\<close>. Its total is the float 7.5
  and its verification flag is true, whatever the clock reads.
\<close>

theorem distribute_for_service_example:
  "emission_wallets (example_service_call now) =
     map (Some \<circ> PStr) [''athena'', ''hermes'', ''chronos'', ''prometheus'', ''apollo'',
       ''gaia'', ''zeus'', ''olympus'']
   \<and> length (emissions_of (example_service_call now)) = 8
   \<and> emission_field (example_service_call now) ''prometheus'' ''amount_psp''
       = Some (PFloat (fl (1000 / 1000)))
   \<and> emission_field (example_service_call now) ''prometheus'' ''destination_id''
       = Some (PInt 42)
   \<and> emission_field (example_service_call now) ''apollo'' ''amount_psp''
       = Some (PFloat (fl (1000 / 1000)))
   \<and> emission_field (example_service_call now) ''apollo'' ''destination_id'' = Some (PInt 7)
   \<and> emission_field (example_service_call now) ''gaia'' ''amount_psp''
       = Some (PFloat (fl (1000 / 1000)))
   \<and> emission_field (example_service_call now) ''gaia'' ''destination_id'' = Some (PInt 9)
   \<and> emission_field (example_service_call now) ''athena'' ''amount_psp''
       = Some (PFloat (fl (2000 / 1000)))
   \<and> emission_field (example_service_call now) ''athena'' ''destination_id'' = Some PNone
   \<and> emission_field (example_service_call now) ''hermes'' ''amount_psp''
       = Some (PFloat (fl (1225 / 1000)))
   \<and> emission_field (example_service_call now) ''hermes'' ''destination_id'' = Some PNone
   \<and> emission_field (example_service_call now) ''chronos'' ''amount_psp''
       = Some (PFloat (fl (1125 / 1000)))
   \<and> emission_field (example_service_call now) ''chronos'' ''destination_id'' = Some PNone
   \<and> emission_field (example_service_call now) ''zeus'' ''amount_psp''
       = Some (PFloat (fl (75 / 1000)))
   \<and> emission_field (example_service_call now) ''zeus'' ''destination_id'' = Some PNone
   \<and> emission_field (example_service_call now) ''olympus'' ''amount_psp''
       = Some (PFloat (fl (75 / 1000)))
   \<and> emission_field (example_service_call now) ''olympus'' ''destination_id'' = Some PNone
   \<and> field_of (example_service_call now) ''total_psp'' = Some (PFloat (fl (7500 / 1000)))
   \<and> field_of (example_service_call now) ''verified'' = Some (PBool True)"
proof -
  have e: "emissions_of (example_service_call now) = service_emissions 42 7 (Some 9)"
    by (simp add: example_service_call_def service_emissions_of)
  have f: "field_of (example_service_call now) ''total_psp'' = Some (PFloat (fl (7500 / 1000)))"
      "field_of (example_service_call now) ''verified'' = Some (PBool True)"
    by (simp_all add: example_service_call_def distribute_for_service_eq field_of_def fl_vals)
  show ?thesis
    unfolding emission_wallets_def emission_field_def emission_for_def e
    by (simp add: f service_emissions_def opt_int_def)
qed

text \<open>
  C8. When \<open>property_id\<close> is omitted (it is then \<open>None\<close>), the gaia emission has a
  \<open>destination_id\<close> field and the field holds \<open>None\<close>; a property id that is given,
  zero included, is passed through as that integer.
\<close>

theorem gaia_destination_is_none_without_property:
  "emission_field
      (distribute_for_service worker_id client_id None certificate_id service_value_usd
         dapp_origen now) ''gaia'' ''destination_id'' = Some PNone
   \<and> emission_field
      (distribute_for_service worker_id client_id (Some i) certificate_id service_value_usd
         dapp_origen now) ''gaia'' ''destination_id'' = Some (PInt i)"
  by (simp add: emission_field_def emission_for_def service_emissions_of service_emissions_def
      opt_int_def)

section \<open>The two distributions compared\<close>

text \<open>
  C2, as stated, fails: the two operations do not differ in the destination identifiers
  only. For athena the generic emission has the role \<open>foundation\<close>, a name and a
  percentage; the per-service emission has the role \<open>PSP Foundation\<close> and neither a name
  nor a percentage.
\<close>

theorem distributions_differ_beyond_destination_counterexample:
  "emission_field (distribute_classic_7_5 ''t'') ''athena'' ''role''
      = Some (PStr ''foundation'')
   \<and> emission_field (example_service_call ''t'') ''athena'' ''role''
      = Some (PStr ''PSP Foundation'')
   \<and> emission_field (distribute_classic_7_5 ''t'') ''athena'' ''name'' = Some (PStr ''Athena'')
   \<and> emission_field (example_service_call ''t'') ''athena'' ''name'' = None
   \<and> emission_field (distribute_classic_7_5 ''t'') ''athena'' ''percentage''
      = Some (PFloat (fl (2667 / 100)))
   \<and> emission_field (example_service_call ''t'') ''athena'' ''percentage'' = None"
  by (simp add: emission_field_def emission_for_def example_service_call_def
      service_emissions_of classic_emissions_of service_emissions_def GREEK_WALLETS_def)

text \<open>
  C2, amended. For every wallet key and every choice of arguments, the generic and the
  per-service emission carry the same amount and the same destination type, and both
  results list the wallet keys in table order. The generic emission has no
  \<open>destination_id\<close>, the per-service emission has one; apart from \<open>destination_id\<close>,
  \<open>role\<close>, \<open>name\<close> and \<open>percentage\<close>, every field of the two emissions agrees.
  In those three the emissions of every wallet key differ: the generic emission takes its
  \<open>name\<close>, \<open>role\<close> and \<open>percentage\<close> from the table, the per-service emission
  has no \<open>name\<close> and no \<open>percentage\<close> and carries a role label of its own, which is
  not the role of the table. The fields of a generic emission are \<open>wallet\<close>, \<open>name\<close>,
  \<open>role\<close>, \<open>amount_psp\<close>, \<open>percentage\<close>, \<open>destination_type\<close>; those of a
  per-service emission are \<open>wallet\<close>, \<open>amount_psp\<close>, \<open>destination_type\<close>,
  \<open>destination_id\<close>, \<open>role\<close>.
\<close>

theorem distributions_agree_on_amount_and_type:
  assumes "w \<in> set WALLET_NAMES"
  shows "emission_field (distribute_classic_7_5 now) w ''amount_psp''
           = emission_field
               (distribute_for_service worker_id client_id property_id certificate_id
                  service_value_usd dapp_origen now') w ''amount_psp''
    \<and> emission_field (distribute_classic_7_5 now) w ''amount_psp'' \<noteq> None
    \<and> emission_field (distribute_classic_7_5 now) w ''destination_type''
           = emission_field
               (distribute_for_service worker_id client_id property_id certificate_id
                  service_value_usd dapp_origen now') w ''destination_type''
    \<and> emission_field (distribute_classic_7_5 now) w ''destination_type'' \<noteq> None
    \<and> emission_field (distribute_classic_7_5 now) w ''destination_id'' = None
    \<and> emission_field
               (distribute_for_service worker_id client_id property_id certificate_id
                  service_value_usd dapp_origen now') w ''destination_id'' \<noteq> None
    \<and> (k \<notin> {''destination_id'', ''role'', ''name'', ''percentage''} \<longrightarrow>
         emission_field (distribute_classic_7_5 now) w k
           = emission_field
               (distribute_for_service worker_id client_id property_id certificate_id
                  service_value_usd dapp_origen now') w k)
    \<and> emission_wallets (distribute_classic_7_5 now) = map (Some \<circ> PStr) WALLET_NAMES
    \<and> emission_wallets
         (distribute_for_service worker_id client_id property_id certificate_id
            service_value_usd dapp_origen now') = map (Some \<circ> PStr) WALLET_NAMES
    \<and> emission_field (distribute_classic_7_5 now) w ''role''
           = Option.bind (map_of GREEK_WALLETS w) (\<lambda>c. map_of c ''role'')
    \<and> emission_field (distribute_classic_7_5 now) w ''name''
           = Option.bind (map_of GREEK_WALLETS w) (\<lambda>c. map_of c ''name'')
    \<and> emission_field (distribute_classic_7_5 now) w ''percentage''
           = Option.bind (map_of GREEK_WALLETS w) (\<lambda>c. map_of c ''percentage'')
    \<and> emission_field (distribute_classic_7_5 now) w ''role'' \<noteq> None
    \<and> emission_field (distribute_classic_7_5 now) w ''name'' \<noteq> None
    \<and> emission_field (distribute_classic_7_5 now) w ''percentage'' \<noteq> None
    \<and> emission_field
               (distribute_for_service worker_id client_id property_id certificate_id
                  service_value_usd dapp_origen now') w ''role'' \<noteq> None
    \<and> emission_field
               (distribute_for_service worker_id client_id property_id certificate_id
                  service_value_usd dapp_origen now') w ''role''
           \<noteq> emission_field (distribute_classic_7_5 now) w ''role''
    \<and> emission_field
               (distribute_for_service worker_id client_id property_id certificate_id
                  service_value_usd dapp_origen now') w ''name'' = None
    \<and> emission_field
               (distribute_for_service worker_id client_id property_id certificate_id
                  service_value_usd dapp_origen now') w ''percentage'' = None
    \<and> map_option dict_keys (emission_for (distribute_classic_7_5 now) w)
           = Some [''wallet'', ''name'', ''role'', ''amount_psp'', ''percentage'',
                   ''destination_type'']
    \<and> map_option dict_keys
           (emission_for
               (distribute_for_service worker_id client_id property_id certificate_id
                  service_value_usd dapp_origen now') w)
           = Some [''wallet'', ''amount_psp'', ''destination_type'', ''destination_id'',
                   ''role'']
    \<and> map (\<lambda>w. emission_field (distribute_classic_7_5 now) w ''role'') WALLET_NAMES
           = map (Some \<circ> PStr)
               [''foundation'', ''platform'', ''development'', ''worker'', ''client'',
                ''property'', ''dao'', ''legal'']
    \<and> map (\<lambda>w. emission_field
               (distribute_for_service worker_id client_id property_id certificate_id
                  service_value_usd dapp_origen now') w ''role'') WALLET_NAMES
           = map (Some \<circ> PStr)
               [''PSP Foundation'', ''Platform'', ''Developers'', ''Worker'', ''Client'',
                ''Property NFT'', ''DAO/Protocol'', ''Legal'']"
proof -
  have order:
    "emission_wallets (distribute_classic_7_5 now) = map (Some \<circ> PStr) WALLET_NAMES"
    "emission_wallets
         (distribute_for_service worker_id client_id property_id certificate_id
            service_value_usd dapp_origen now') = map (Some \<circ> PStr) WALLET_NAMES"
    by (simp_all add: emission_wallets_def service_emissions_of classic_emissions_of
        service_emissions_def GREEK_WALLETS_def WALLET_NAMES_eq)
  have fields:
    "emission_field (distribute_classic_7_5 now) w ''amount_psp''
       = emission_field
           (distribute_for_service worker_id client_id property_id certificate_id
              service_value_usd dapp_origen now') w ''amount_psp''"
    "emission_field (distribute_classic_7_5 now) w ''amount_psp'' \<noteq> None"
    "emission_field (distribute_classic_7_5 now) w ''destination_type''
       = emission_field
           (distribute_for_service worker_id client_id property_id certificate_id
              service_value_usd dapp_origen now') w ''destination_type''"
    "emission_field (distribute_classic_7_5 now) w ''destination_type'' \<noteq> None"
    "emission_field (distribute_classic_7_5 now) w ''destination_id'' = None"
    using assms unfolding WALLET_NAMES_eq
    by (auto simp add: emission_field_def emission_for_def service_emissions_of
        classic_emissions_of service_emissions_def GREEK_WALLETS_def)
  have dest:
    "emission_field
       (distribute_for_service worker_id client_id property_id certificate_id
          service_value_usd dapp_origen now') w ''destination_id'' \<noteq> None"
    using assms unfolding WALLET_NAMES_eq
    by (auto simp add: emission_field_def emission_for_def service_emissions_of
        service_emissions_def)
  have rest:
    "k \<notin> {''destination_id'', ''role'', ''name'', ''percentage''} \<longrightarrow>
       emission_field (distribute_classic_7_5 now) w k
         = emission_field
             (distribute_for_service worker_id client_id property_id certificate_id
                service_value_usd dapp_origen now') w k"
    using assms unfolding WALLET_NAMES_eq
    by (auto simp add: emission_field_def emission_for_def service_emissions_of
        classic_emissions_of service_emissions_def GREEK_WALLETS_def)
  have table:
    "emission_field (distribute_classic_7_5 now) w ''role''
       = Option.bind (map_of GREEK_WALLETS w) (\<lambda>c. map_of c ''role'')"
    "emission_field (distribute_classic_7_5 now) w ''name''
       = Option.bind (map_of GREEK_WALLETS w) (\<lambda>c. map_of c ''name'')"
    "emission_field (distribute_classic_7_5 now) w ''percentage''
       = Option.bind (map_of GREEK_WALLETS w) (\<lambda>c. map_of c ''percentage'')"
    "emission_field (distribute_classic_7_5 now) w ''role'' \<noteq> None"
    "emission_field (distribute_classic_7_5 now) w ''name'' \<noteq> None"
    "emission_field (distribute_classic_7_5 now) w ''percentage'' \<noteq> None"
    using assms unfolding WALLET_NAMES_eq
    by (auto simp add: emission_field_def emission_for_def classic_emissions_of
        GREEK_WALLETS_def)
  have labels:
    "emission_field
       (distribute_for_service worker_id client_id property_id certificate_id
          service_value_usd dapp_origen now') w ''role'' \<noteq> None"
    "emission_field
       (distribute_for_service worker_id client_id property_id certificate_id
          service_value_usd dapp_origen now') w ''role''
       \<noteq> emission_field (distribute_classic_7_5 now) w ''role''"
    "emission_field
       (distribute_for_service worker_id client_id property_id certificate_id
          service_value_usd dapp_origen now') w ''name'' = None"
    "emission_field
       (distribute_for_service worker_id client_id property_id certificate_id
          service_value_usd dapp_origen now') w ''percentage'' = None"
    using assms unfolding WALLET_NAMES_eq
    by (auto simp add: emission_field_def emission_for_def service_emissions_of
        classic_emissions_of service_emissions_def GREEK_WALLETS_def)
  have keys:
    "map_option dict_keys (emission_for (distribute_classic_7_5 now) w)
       = Some [''wallet'', ''name'', ''role'', ''amount_psp'', ''percentage'',
               ''destination_type'']"
    "map_option dict_keys
       (emission_for
          (distribute_for_service worker_id client_id property_id certificate_id
             service_value_usd dapp_origen now') w)
       = Some [''wallet'', ''amount_psp'', ''destination_type'', ''destination_id'',
               ''role'']"
    using assms unfolding WALLET_NAMES_eq
    by (auto simp add: emission_for_def service_emissions_of classic_emissions_of
        service_emissions_def GREEK_WALLETS_def dict_keys_def)
  have roles:
    "map (\<lambda>w. emission_field (distribute_classic_7_5 now) w ''role'') WALLET_NAMES
       = map (Some \<circ> PStr)
           [''foundation'', ''platform'', ''development'', ''worker'', ''client'',
            ''property'', ''dao'', ''legal'']"
    "map (\<lambda>w. emission_field
           (distribute_for_service worker_id client_id property_id certificate_id
              service_value_usd dapp_origen now') w ''role'') WALLET_NAMES
       = map (Some \<circ> PStr)
           [''PSP Foundation'', ''Platform'', ''Developers'', ''Worker'', ''Client'',
            ''Property NFT'', ''DAO/Protocol'', ''Legal'']"
    by (simp_all add: emission_field_def emission_for_def service_emissions_of
        classic_emissions_of service_emissions_def GREEK_WALLETS_def WALLET_NAMES_eq)
  from order fields dest rest table labels keys roles show ?thesis
    by (intro conjI)
qed

theorem distributions_agree_on_amount_and_type_witness:
  "''hermes'' \<in> set WALLET_NAMES
   \<and> ''wallet'' \<notin> {''destination_id'', ''role'', ''name'', ''percentage''}
   \<and> emission_field (distribute_classic_7_5 ''t'') ''hermes'' ''amount_psp''
       = emission_field (distribute_for_service 42 7 (Some 9) (Some 100) 250 ''handyplan'' ''u'')
           ''hermes'' ''amount_psp''
   \<and> emission_field (distribute_classic_7_5 ''t'') ''hermes'' ''destination_type''
       = emission_field (distribute_for_service 42 7 (Some 9) (Some 100) 250 ''handyplan'' ''u'')
           ''hermes'' ''destination_type''
   \<and> emission_field (distribute_classic_7_5 ''t'') ''hermes'' ''wallet''
       = emission_field (distribute_for_service 42 7 (Some 9) (Some 100) 250 ''handyplan'' ''u'')
           ''hermes'' ''wallet''
   \<and> emission_field (distribute_for_service 42 7 (Some 9) (Some 100) 250 ''handyplan'' ''u'')
           ''hermes'' ''role''
       \<noteq> emission_field (distribute_classic_7_5 ''t'') ''hermes'' ''role''
   \<and> emission_field (distribute_classic_7_5 ''t'') ''hermes'' ''name'' \<noteq> None
   \<and> emission_field (distribute_for_service 42 7 (Some 9) (Some 100) 250 ''handyplan'' ''u'')
           ''hermes'' ''name'' = None
   \<and> emission_field (distribute_classic_7_5 ''t'') ''hermes'' ''percentage'' \<noteq> None
   \<and> emission_field (distribute_for_service 42 7 (Some 9) (Some 100) 250 ''handyplan'' ''u'')
           ''hermes'' ''percentage'' = None"
  using distributions_agree_on_amount_and_type
    [of "''hermes''" "''t''" 42 7 "Some 9" "Some 100" 250 "''handyplan''" "''u''" "''wallet''"]
  by (simp add: WALLET_NAMES_eq GREEK_WALLETS_def)

section \<open>The wallet table\<close>

text \<open>
  C3. The table has eight entries, each with a strictly positive amount. The exact sum of
  the eight stored amounts is within 0.001 of the total constant, the float sum that the
  program computes is the constant 7.5 itself, and \<open>validate_total()\<close> returns true.
\<close>

theorem amounts_positive_and_sum_to_total:
  "map fst wallet_shares = WALLET_NAMES
   \<and> length wallet_shares = 8
   \<and> (\<forall>(k, a, p) \<in> set wallet_shares. 0 < a)
   \<and> \<bar>(\<Sum>(k, a, p) \<leftarrow> wallet_shares. a) - TOTAL_PSP_PER_TRANSACTION\<bar> < 1 / 1000
   \<and> sum_items ''psp_amount'' (dict_values GREEK_WALLETS) = Inr TOTAL_PSP_PER_TRANSACTION
   \<and> TOTAL_PSP_PER_TRANSACTION = 7500 / 1000
   \<and> validate_total = Inr True"
proof -
  have "validate_total = Inr True"
    by (simp add: validate_total_def table_sum bind_err_def within_tolerance_total)
  then show ?thesis
    by (simp add: wallet_shares_eq WALLET_NAMES_eq TOTAL_PSP_PER_TRANSACTION_def fl_vals
        table_sum)
qed

theorem amounts_positive_and_sum_to_total_witness:
  "(''hermes'', fl (1225 / 1000), fl (1633 / 100)) \<in> set wallet_shares
   \<and> 0 < fl (1225 / 1000)"
  using amounts_positive_and_sum_to_total
  by (auto simp add: wallet_shares_eq fl_vals)

text \<open>
  C6. For every entry, the stored percentage is within half a hundredth of the amount
  divided by the total and multiplied by 100; it is the float written with the two
  decimals to which that quotient rounds.
\<close>

theorem percentage_matches_amount:
  "map fst wallet_shares = WALLET_NAMES
   \<and> (\<forall>(k, a, p) \<in> set wallet_shares.
        \<bar>p - a / TOTAL_PSP_PER_TRANSACTION * 100\<bar> \<le> 5 / 1000
        \<and> p = fl (of_int (round_half_even (a / TOTAL_PSP_PER_TRANSACTION * 100 * 100)) / 100))"
  by (simp add: wallet_shares_eq WALLET_NAMES_eq TOTAL_PSP_PER_TRANSACTION_def fl_vals
      round_half_even_vals)

theorem percentage_matches_amount_witness:
  "(''athena'', fl (2000 / 1000), fl (2667 / 100)) \<in> set wallet_shares
   \<and> \<bar>fl (2667 / 100) - fl (2000 / 1000) / TOTAL_PSP_PER_TRANSACTION * 100\<bar> \<le> 5 / 1000"
  using percentage_matches_amount
  by (auto simp add: wallet_shares_eq fl_vals)

section \<open>The genesis string\<close>

lemma spec_genesis_fields_eq:
  "spec_genesis_fields =
     [(''block'', ''0''),
      (''version'', ''1.0.0''),
      (''timestamp'', ''2025-12-01T00:00:00Z''),
      (''protocol'', ''Proof Of Service Protocol''),
      (''psp'', ''7.5''),
      (''message'', ''SmartWork Always Leads To Greatness''),
      (''satoshi'', ''Without verified physical work, there is no emission.''),
      (''wallets'', ''athena,hermes,chronos,prometheus,apollo,gaia,zeus,olympus''),
      (''zeus'', ''1.0''),
      (''olympus'', ''1.0'')]"
  by code_simp

lemma spec_genesis_string_eq: "spec_genesis_string = genesis_string"
  by (simp add: spec_genesis_string_def spec_genesis_fields_def genesis_string_def)

lemma genesis_string_eq:
  "genesis_string =
     ''block:0|version:1.0.0|timestamp:2025-12-01T00:00:00Z|protocol:Proof Of Service Protocol|psp:7.5|message:SmartWork Always Leads To Greatness|satoshi:Without verified physical work, there is no emission.|wallets:athena,hermes,chronos,prometheus,apollo,gaia,zeus,olympus|zeus:1.0|olympus:1.0''"
  unfolding spec_genesis_string_eq [symmetric] spec_genesis_string_def spec_genesis_fields_eq
  by simp

section \<open>The shape of a digest\<close>

lemma length_hex_word: "length (hex_word w) = 8"
  by (simp add: hex_word_def)

lemma length_hexdigest: "length (hexdigest hs) = 8 * length hs"
  by (induction hs) (simp_all add: hexdigest_def length_hex_word)

lemma length_round_step: "length s = 8 \<Longrightarrow> length (round_step s kw) = 8"
  by (cases kw) (auto simp: eval_nat_numeral length_Suc_conv Let_def)

lemma length_rounds: "length s = 8 \<Longrightarrow> length (foldl round_step s kws) = 8"
  by (induction kws arbitrary: s) (simp_all add: length_round_step)

lemma length_compress: "length hs = 8 \<Longrightarrow> length (compress hs b) = 8"
  by (simp add: compress_def length_rounds)

lemma length_foldl_compress: "length hs = 8 \<Longrightarrow> length (foldl compress hs bs) = 8"
  by (induction bs arbitrary: hs) (simp_all add: length_compress)

lemma length_primes: "length primes = 64"
  by code_simp

lemma length_H256: "length H256 = 8"
  by (simp add: H256_def length_primes)

lemma length_sha256: "length (sha256 m) = 8"
  by (simp add: sha256_def length_foldl_compress length_H256)

lemma length_digest: "length (hexdigest (sha256 m)) = 64"
  by (simp add: length_hexdigest length_sha256)




section \<open>The digest of the genesis string\<close>

text \<open>The model of SHA-256 on the one-block message \<open>abc\<close> of the standard's examples.\<close>

lemma sha256_abc:
  "hexdigest (sha256 (encode_utf8 ''abc'')) =
     ''ba7816bf8f01cfea414140de5dae2223b00361a396177a9cb410ff61f20015ad''"
  by code_simp

text \<open>The genesis string is 288 bytes long and pads to five blocks; the digest is
  computed block by block.\<close>

lemma sha256_genesis_blocks:
  "blocks (be_words (pad (encode_utf8 genesis_string))) =
     [[0x626c6f63, 0x6b3a307c, 0x76657273, 0x696f6e3a, 0x312e302e, 0x307c7469, 0x6d657374,
       0x616d703a, 0x32303235, 0x2d31322d, 0x30315430, 0x303a3030, 0x3a30305a, 0x7c70726f,
       0x746f636f, 0x6c3a5072],
      [0x6f6f6620, 0x4f662053, 0x65727669, 0x63652050, 0x726f746f, 0x636f6c7c, 0x7073703a,
       0x372e357c, 0x6d657373, 0x6167653a, 0x536d6172, 0x74576f72, 0x6b20416c, 0x77617973,
       0x204c6561, 0x64732054],
      [0x6f204772, 0x6561746e, 0x6573737c, 0x7361746f, 0x7368693a, 0x57697468, 0x6f757420,
       0x76657269, 0x66696564, 0x20706879, 0x73696361, 0x6c20776f, 0x726b2c20, 0x74686572,
       0x65206973, 0x206e6f20],
      [0x656d6973, 0x73696f6e, 0x2e7c7761, 0x6c6c6574, 0x733a6174, 0x68656e61, 0x2c686572,
       0x6d65732c, 0x6368726f, 0x6e6f732c, 0x70726f6d, 0x65746865, 0x75732c61, 0x706f6c6c,
       0x6f2c6761, 0x69612c7a],
      [0x6575732c, 0x6f6c796d, 0x7075737c, 0x7a657573, 0x3a312e30, 0x7c6f6c79, 0x6d707573,
       0x3a312e30, 0x80000000, 0x00000000, 0x00000000, 0x00000000, 0x00000000, 0x00000000,
       0x00000000, 0x00000900]]"
  unfolding genesis_string_eq by code_simp

lemma sha256_genesis_state_1:
  "compress H256
     [0x626c6f63, 0x6b3a307c, 0x76657273, 0x696f6e3a, 0x312e302e, 0x307c7469, 0x6d657374,
      0x616d703a, 0x32303235, 0x2d31322d, 0x30315430, 0x303a3030, 0x3a30305a, 0x7c70726f,
      0x746f636f, 0x6c3a5072] =
   [0x39bd5df6, 0x24b18b99, 0xe2c52447, 0xaebc62e8, 0xd80b7953, 0x3c60ef13, 0xcd0752c0,
    0xe46db143]"
  by code_simp

lemma sha256_genesis_state_2:
  "compress
     [0x39bd5df6, 0x24b18b99, 0xe2c52447, 0xaebc62e8, 0xd80b7953, 0x3c60ef13, 0xcd0752c0,
      0xe46db143]
     [0x6f6f6620, 0x4f662053, 0x65727669, 0x63652050, 0x726f746f, 0x636f6c7c, 0x7073703a,
      0x372e357c, 0x6d657373, 0x6167653a, 0x536d6172, 0x74576f72, 0x6b20416c, 0x77617973,
      0x204c6561, 0x64732054] =
   [0x6b3c3a55, 0x2c478714, 0x2797a234, 0x7b6a0d76, 0xb645b88d, 0x4b9ae010, 0x19d54abe,
    0xbbabb442]"
  by code_simp

lemma sha256_genesis_state_3:
  "compress
     [0x6b3c3a55, 0x2c478714, 0x2797a234, 0x7b6a0d76, 0xb645b88d, 0x4b9ae010, 0x19d54abe,
      0xbbabb442]
     [0x6f204772, 0x6561746e, 0x6573737c, 0x7361746f, 0x7368693a, 0x57697468, 0x6f757420,
      0x76657269, 0x66696564, 0x20706879, 0x73696361, 0x6c20776f, 0x726b2c20, 0x74686572,
      0x65206973, 0x206e6f20] =
   [0xc9458c2b, 0x11c92597, 0xd7a74944, 0x0112e463, 0xc0832ddd, 0x10924278, 0xc221deb7,
    0x1c23f106]"
  by code_simp

lemma sha256_genesis_state_4:
  "compress
     [0xc9458c2b, 0x11c92597, 0xd7a74944, 0x0112e463, 0xc0832ddd, 0x10924278, 0xc221deb7,
      0x1c23f106]
     [0x656d6973, 0x73696f6e, 0x2e7c7761, 0x6c6c6574, 0x733a6174, 0x68656e61, 0x2c686572,
      0x6d65732c, 0x6368726f, 0x6e6f732c, 0x70726f6d, 0x65746865, 0x75732c61, 0x706f6c6c,
      0x6f2c6761, 0x69612c7a] =
   [0x0f47953c, 0x82d3738e, 0x1a3395b2, 0xde2878e9, 0xadc441bd, 0x268333bb, 0x0f23e640,
    0xeb6e11fd]"
  by code_simp

lemma sha256_genesis_state_5:
  "compress
     [0x0f47953c, 0x82d3738e, 0x1a3395b2, 0xde2878e9, 0xadc441bd, 0x268333bb, 0x0f23e640,
      0xeb6e11fd]
     [0x6575732c, 0x6f6c796d, 0x7075737c, 0x7a657573, 0x3a312e30, 0x7c6f6c79, 0x6d707573,
      0x3a312e30, 0x80000000, 0x00000000, 0x00000000, 0x00000000, 0x00000000, 0x00000000,
      0x00000000, 0x00000900] =
   [0x9735c220, 0x461aa07c, 0xf93d7ad6, 0x152fdf32, 0x446e782e, 0x1e50066a, 0x571936b9,
    0x906f2b9d]"
  by code_simp

lemma sha256_genesis:
  "sha256 (encode_utf8 genesis_string) =
     [0x9735c220, 0x461aa07c, 0xf93d7ad6, 0x152fdf32, 0x446e782e, 0x1e50066a, 0x571936b9,
      0x906f2b9d]"
  by (simp only: sha256_def sha256_genesis_blocks foldl_Cons foldl_Nil
      sha256_genesis_state_1 sha256_genesis_state_2 sha256_genesis_state_3
      sha256_genesis_state_4 sha256_genesis_state_5)

lemma compute_genesis_hash_eq:
  "compute_genesis_hash = ''9735c220461aa07cf93d7ad6152fdf32446e782e1e50066a571936b9906f2b9d''"
  unfolding compute_genesis_hash_def sha256_genesis by code_simp

section \<open>The genesis digest\<close>

text \<open>
  C4: the genesis digest is the SHA-256 hash, written as hexadecimal digits, of a
  pipe-delimited string built from exactly these fields in exactly this order: block
  number, version, timestamp, protocol name, total per transaction, message, satoshi legacy
  string, comma-joined wallet key list, zeus percentage, olympus percentage. Each field
  stands under a label of its own, no label and no value holds a pipe, and the module
  constant \<open>GENESIS_HASH\<close> is that digest. With the values of the record the string and
  its digest are the ones written out here.
\<close>

theorem genesis_digest_is_sha256_of_fields:
  "compute_genesis_hash = hexdigest (sha256 (encode_utf8 spec_genesis_string))
   \<and> GENESIS_HASH = compute_genesis_hash
   \<and> length spec_genesis_fields = 10
   \<and> list_all (\<lambda>(l, v). CHR ''|'' \<notin> set l \<and> CHR ''|'' \<notin> set v) spec_genesis_fields
   \<and> map fst spec_genesis_fields =
       [''block'', ''version'', ''timestamp'', ''protocol'', ''psp'', ''message'', ''satoshi'',
        ''wallets'', ''zeus'', ''olympus'']
   \<and> map snd spec_genesis_fields =
       [''0'', ''1.0.0'', ''2025-12-01T00:00:00Z'', ''Proof Of Service Protocol'', ''7.5'',
        ''SmartWork Always Leads To Greatness'',
        ''Without verified physical work, there is no emission.'',
        ''athena,hermes,chronos,prometheus,apollo,gaia,zeus,olympus'', ''1.0'', ''1.0'']
   \<and> spec_genesis_string =
       ''block:0|version:1.0.0|timestamp:2025-12-01T00:00:00Z|protocol:Proof Of Service Protocol|psp:7.5|message:SmartWork Always Leads To Greatness|satoshi:Without verified physical work, there is no emission.|wallets:athena,hermes,chronos,prometheus,apollo,gaia,zeus,olympus|zeus:1.0|olympus:1.0''
   \<and> compute_genesis_hash =
       ''9735c220461aa07cf93d7ad6152fdf32446e782e1e50066a571936b9906f2b9d''"
proof -
  have "compute_genesis_hash = hexdigest (sha256 (encode_utf8 spec_genesis_string))"
    by (simp add: compute_genesis_hash_def spec_genesis_string_eq)
  moreover have "GENESIS_HASH = compute_genesis_hash"
    by (simp add: GENESIS_HASH_def)
  moreover have "length spec_genesis_fields = 10"
    by (simp add: spec_genesis_fields_eq)
  moreover have
    "list_all (\<lambda>(l, v). CHR ''|'' \<notin> set l \<and> CHR ''|'' \<notin> set v) spec_genesis_fields"
    by (simp add: spec_genesis_fields_eq)
  moreover have "map fst spec_genesis_fields =
       [''block'', ''version'', ''timestamp'', ''protocol'', ''psp'', ''message'', ''satoshi'',
        ''wallets'', ''zeus'', ''olympus'']"
    by (simp add: spec_genesis_fields_eq)
  moreover have "map snd spec_genesis_fields =
       [''0'', ''1.0.0'', ''2025-12-01T00:00:00Z'', ''Proof Of Service Protocol'', ''7.5'',
        ''SmartWork Always Leads To Greatness'',
        ''Without verified physical work, there is no emission.'',
        ''athena,hermes,chronos,prometheus,apollo,gaia,zeus,olympus'', ''1.0'', ''1.0'']"
    by (simp add: spec_genesis_fields_eq)
  moreover note genesis_string_eq [folded spec_genesis_string_eq] compute_genesis_hash_eq
  ultimately show ?thesis
    by (intro conjI)
qed

section \<open>Verifying the genesis block\<close>





text \<open>
  C10: \<open>verify_genesis('')\<close>, with the empty string as the hash, returns what the call
  with no argument returns: the test \<open>if provided_hash:\<close> fails for the empty string as
  it does for \<open>None\<close>, so the result has \<open>verified\<close> true and has neither a \<open>matches\<close>
  nor a \<open>provided_hash\<close> field, although the empty string is not the digest.
\<close>

theorem verify_genesis_empty_string_is_no_argument:
  "verify_genesis (Some []) = verify_genesis None
   \<and> field_of (verify_genesis (Some [])) ''verified'' = Some (PBool True)
   \<and> field_of (verify_genesis (Some [])) ''matches'' = None
   \<and> field_of (verify_genesis (Some [])) ''provided_hash'' = None
   \<and> compute_genesis_hash \<noteq> []"
proof -
  have "length compute_genesis_hash = 64"
    by (simp add: compute_genesis_hash_def length_digest)
  then have "compute_genesis_hash \<noteq> []"
    by auto
  then show ?thesis
    by (simp add: verify_genesis_def truthy_def field_of_def Let_def)
qed

end
